theory Spec2Isabelle
  imports Main "HOL-Library.AList"
begin

section \<open>The QR session manager of bot.py\<close>

text \<open>
  The theory embeds the class \<open>SessionManager\<close> of \<open>bot.py\<close>: its dictionary
  \<open>active_qr_sessions\<close> and its three coroutines \<open>create_qr_session\<close>,
  \<open>wait_for_qr_scan\<close> and \<open>cleanup_session\<close>.

  The coroutines call into Telethon, asyncio and the SQLite wrapper \<open>Database\<close>. What
  such a call returns or raises is not decided by the manager, so every call site takes its
  outcome from an environment record, and the model has one branch for each outcome the
  surrounding \<open>try\<close> statement distinguishes. Each call is also appended to a trace, which is
  what the ordering properties are stated on. Every coroutine is run to completion as one
  step; calls to \<open>logger\<close> are left out, and so is the dictionary \<open>clients\<close>, which is
  created empty and never read or written.
\<close>

subsection \<open>Values\<close>

type_synonym user_id = int

text \<open>A \<open>TelegramClient\<close> object is identified by the number of its allocation.\<close>

type_synonym client = nat

text \<open>
  Exceptions. \<open>TimeoutError\<close> is \<open>asyncio.TimeoutError\<close>, the only class that
  \<open>wait_for_qr_scan\<close> handles apart; \<open>KeyError\<close> is what \<open>del\<close> raises on a missing key;
  \<open>Exception\<close> carries the text \<open>str(e)\<close> of any other exception.
\<close>

datatype exn = TimeoutError | KeyError | Exception string

record device =
  device_model :: string
  system_version :: string
  app_version :: string

definition devices :: "device list" where
  "devices =
     [\<lparr>device_model = ''Samsung SM-G991B'', system_version = ''Android 13'',
       app_version = ''10.0.0''\<rparr>,
      \<lparr>device_model = ''iPhone15,3'', system_version = ''iOS 17.1.2'',
       app_version = ''10.0.0''\<rparr>,
      \<lparr>device_model = ''Desktop'', system_version = ''Windows 10'',
       app_version = ''4.0.0''\<rparr>]"

text \<open>\<open>random.choice\<close> on a non-empty list, from the random number drawn.\<close>

definition random_choice :: "nat \<Rightarrow> 'a list \<Rightarrow> 'a" where
  "random_choice r xs = xs ! (r mod length xs)"

text \<open>
  One value of \<open>active_qr_sessions\<close>: the dictionary literal of \<open>create_qr_session\<close>.
  The \<open>QRLogin\<close> object is represented by its \<open>url\<close>, the aiogram message by a number.
\<close>

record qr_session =
  client :: client
  qr_login :: string
  api_config_id :: int
  api_name :: string
  created_at :: nat
  message :: nat

text \<open>The dictionary that \<open>wait_for_qr_scan\<close> returns on success.\<close>

record session_info =
  session_string :: string
  telegram_id :: "int option"
  phone_number :: "string option"
  info_api_name :: string

subsection \<open>Trace of calls\<close>

datatype event =
    GetApiById int
  | NewClient client int string device
  | Connect client "exn option"
  | QrLogin client "exn option"
  | Disconnect client "exn option"
  | Store user_id client
  | Del user_id
  | LogAction user_id string string "exn option"
  | WaitFor client nat nat
  | Sleep nat
  | IsUserAuthorized client
  | SessionSave client
  | GetMe client
  | SaveSession user_id string int "int option" "string option" "exn option"

text \<open>
  \<open>Connect\<close>, \<open>QrLogin\<close>, \<open>Disconnect\<close>, \<open>LogAction\<close> and \<open>SaveSession\<close> carry what the
  call raised, if anything. \<open>Store u c\<close> is the assignment
  \<open>self.active_qr_sessions[u] = {'client': c, ...}\<close> and \<open>Del u\<close> the statement
  \<open>del self.active_qr_sessions[u]\<close>. \<open>WaitFor c timeout elapsed\<close> is the call of
  \<open>asyncio.wait_for\<close> on \<open>qr_login.wait()\<close> with the time it took.
\<close>

record manager =
  active_qr_sessions :: "(user_id \<times> qr_session) list"
  trace :: "event list"
  next_client :: client

text \<open>\<open>SessionManager.__init__\<close>.\<close>

definition manager_init :: manager where
  "manager_init = \<lparr>active_qr_sessions = [], trace = [], next_client = 0\<rparr>"

definition emit :: "event \<Rightarrow> manager \<Rightarrow> manager" where
  "emit e s = s\<lparr>trace := trace s @ [e]\<rparr>"

text \<open>The events that a run from \<open>s\<close> to \<open>s'\<close> appended.\<close>

definition new_events :: "manager \<Rightarrow> manager \<Rightarrow> event list" where
  "new_events s s' = drop (length (trace s)) (trace s')"

subsection \<open>Awaiting with a timeout\<close>

text \<open>
  An awaited coroutine returns after some time, raises after some time, or stays pending
  for ever. \<open>asyncio.wait_for\<close> hands on what the coroutine does when it finishes before
  the timeout, and raises \<open>TimeoutError\<close> at the timeout otherwise. The second component
  is the time spent waiting.
\<close>

datatype awaited = Returns nat | Raises nat exn | Pending

fun wait_for :: "awaited \<Rightarrow> nat \<Rightarrow> (exn + unit) \<times> nat" where
  "wait_for (Returns t) timeout =
     (if t < timeout then (Inr (), t) else (Inl TimeoutError, timeout))"
| "wait_for (Raises t e) timeout =
     (if t < timeout then (Inl e, t) else (Inl TimeoutError, timeout))"
| "wait_for Pending timeout = (Inl TimeoutError, timeout)"

subsection \<open>create_qr_session\<close>

text \<open>
  The outcomes of the calls made by \<open>create_qr_session\<close>, in the order of the calls:
  \<open>db.get_api_by_id\<close> (a row \<open>(id, name, api_id, api_hash)\<close>, \<open>None\<close>, or an exception),
  \<open>disconnect\<close> on the client of the previous session, \<open>random.choice\<close>, the constructor
  \<open>TelegramClient\<close>, \<open>client.connect\<close>, \<open>client.qr_login\<close> (the url of the login
  object), \<open>datetime.now\<close> and \<open>db.log_action\<close>.
\<close>

record create_env =
  db_get_api_by_id :: "exn + (int \<times> string \<times> int \<times> string) option"
  evict_disconnect :: "exn option"
  random_pick :: nat
  telegram_client :: "exn option"
  client_connect :: "exn option"
  client_qr_login :: "exn + string"
  datetime_now :: nat
  db_log_action :: "exn option"

text \<open>
  The return values: \<open>(True, qr_login.url)\<close>, \<open>(False, m)\<close> with \<open>m\<close> the message that
  the API configuration was not found, and \<open>(False, m)\<close> with \<open>m\<close> the error message
  built from \<open>str(e)\<close>.
\<close>

datatype create_result = Created string | ApiConfigNotFound | CreateError exn

text \<open>The body of the \<open>try\<close> statement: \<open>Inl e\<close> when \<open>e\<close> escapes it.\<close>

definition create_qr_try ::
  "create_env \<Rightarrow> user_id \<Rightarrow> int \<Rightarrow> nat \<Rightarrow> manager \<Rightarrow> (exn + create_result) \<times> manager" where
  "create_qr_try env uid cfg_id msg s0 =
     (let s1 = emit (GetApiById cfg_id) s0 in
      case db_get_api_by_id env of
        Inl e \<Rightarrow> (Inl e, s1)
      | Inr None \<Rightarrow> (Inr ApiConfigNotFound, s1)
      | Inr (Some (row_id, name, api_id, api_hash)) \<Rightarrow>
          let s2 = (case map_of (active_qr_sessions s1) uid of
                      None \<Rightarrow> s1
                    | Some old \<Rightarrow> emit (Disconnect (client old) (evict_disconnect env)) s1);
              dev = random_choice (random_pick env) devices;
              c = next_client s2
          in case telegram_client env of
               Some e \<Rightarrow> (Inl e, s2)
             | None \<Rightarrow>
                 let s3 = emit (NewClient c api_id api_hash dev) (s2\<lparr>next_client := Suc c\<rparr>);
                     s4 = emit (Connect c (client_connect env)) s3
                 in case client_connect env of
                      Some e \<Rightarrow> (Inl e, s4)
                    | None \<Rightarrow>
                        (case client_qr_login env of
                           Inl e \<Rightarrow> (Inl e, emit (QrLogin c (Some e)) s4)
                         | Inr url \<Rightarrow>
                             let s5 = emit (QrLogin c None) s4;
                                 s6 = emit (Store uid c)
                                        (s5\<lparr>active_qr_sessions :=
                                              AList.update uid
                                                \<lparr>client = c, qr_login = url,
                                                 api_config_id = cfg_id, api_name = name,
                                                 created_at = datetime_now env,
                                                 message = msg\<rparr>
                                                (active_qr_sessions s5)\<rparr>);
                                 s7 = emit (LogAction uid ''qr_created'' (''api: '' @ name)
                                              (db_log_action env)) s6
                             in case db_log_action env of
                                  Some e \<Rightarrow> (Inl e, s7)
                                | None \<Rightarrow> (Inr (Created url), s7)))"

definition create_qr_session ::
  "create_env \<Rightarrow> user_id \<Rightarrow> int \<Rightarrow> nat \<Rightarrow> manager \<Rightarrow> create_result \<times> manager" where
  "create_qr_session env uid cfg_id msg s =
     (case create_qr_try env uid cfg_id msg s of
        (Inr r, s') \<Rightarrow> (r, s')
      | (Inl e, s') \<Rightarrow> (CreateError e, s'))"

subsection \<open>cleanup_session\<close>

text \<open>
  The argument \<open>d\<close> is what \<open>disconnect\<close> raises, if anything; the bare \<open>except\<close>
  discards it.
\<close>

definition cleanup_session :: "exn option \<Rightarrow> user_id \<Rightarrow> manager \<Rightarrow> manager" where
  "cleanup_session d uid s =
     (case map_of (active_qr_sessions s) uid of
        None \<Rightarrow> s
      | Some old \<Rightarrow>
          let s1 = emit (Disconnect (client old) d) s
          in emit (Del uid)
               (s1\<lparr>active_qr_sessions := AList.delete uid (active_qr_sessions s1)\<rparr>))"

subsection \<open>wait_for_qr_scan\<close>

text \<open>
  The outcomes of the calls made by \<open>wait_for_qr_scan\<close>: the coroutine
  \<open>qr_login.wait()\<close>, \<open>client.is_user_authorized\<close>, \<open>client.session.save\<close>,
  \<open>client.get_me\<close> (a user with its \<open>id\<close> and \<open>phone\<close>, or \<open>None\<close>),
  \<open>db.save_session\<close>, \<open>client.disconnect\<close> in the body of the \<open>try\<close> statement, and
  \<open>client.disconnect\<close> inside \<open>cleanup_session\<close>.
\<close>

record wait_env =
  qr_wait :: awaited
  is_user_authorized :: "exn + bool"
  session_save :: "exn + string"
  get_me :: "exn + (int \<times> string option) option"
  db_save_session :: "exn option"
  client_disconnect :: "exn option"
  cleanup_disconnect :: "exn option"

text \<open>
  The return values: \<open>(True, info)\<close>, and \<open>(False, m)\<close> with \<open>m\<close> one of the messages
  session not found, authorization not completed, waiting time expired, and the error
  message built from \<open>str(e)\<close>.
\<close>

datatype wait_result =
    Confirmed session_info
  | SessionNotFound
  | AuthNotCompleted
  | WaitTimeout
  | WaitError exn

text \<open>
  The inner \<open>try\<close> statement around \<open>get_me\<close>: any exception, also the attribute error
  of \<open>me.id\<close> when \<open>get_me\<close> returned \<open>None\<close>, sets both variables to \<open>None\<close>.
\<close>

fun me_fields :: "exn + (int \<times> string option) option \<Rightarrow> int option \<times> string option" where
  "me_fields (Inr (Some (i, p))) = (Some i, p)"
| "me_fields (Inr None) = (None, None)"
| "me_fields (Inl e) = (None, None)"

text \<open>\<open>del d[k]\<close>: raises \<open>KeyError\<close> when the key is missing.\<close>

definition dict_del :: "'k \<Rightarrow> ('k \<times> 'v) list \<Rightarrow> exn + ('k \<times> 'v) list" where
  "dict_del k d = (case map_of d k of None \<Rightarrow> Inl KeyError | Some v \<Rightarrow> Inr (AList.delete k d))"

text \<open>The body of the outer \<open>try\<close> statement, on the session \<open>data\<close> read before it.\<close>

definition wait_try ::
  "wait_env \<Rightarrow> user_id \<Rightarrow> qr_session \<Rightarrow> manager \<Rightarrow> (exn + wait_result) \<times> manager" where
  "wait_try env uid data s0 =
     (let c = client data;
          w = wait_for (qr_wait env) 120;
          s1 = emit (WaitFor c 120 (snd w)) s0
      in case fst w of
           Inl e \<Rightarrow> (Inl e, s1)
         | Inr u \<Rightarrow>
             let s2 = emit (Sleep 3) s1;
                 s3 = emit (IsUserAuthorized c) s2
             in case is_user_authorized env of
                  Inl e \<Rightarrow> (Inl e, s3)
                | Inr is_authorized \<Rightarrow>
                    if \<not> is_authorized then (Inr AuthNotCompleted, s3)
                    else
                      let s4 = emit (SessionSave c) s3
                      in case session_save env of
                           Inl e \<Rightarrow> (Inl e, s4)
                         | Inr str \<Rightarrow>
                             let s5 = emit (GetMe c) s4;
                                 me = me_fields (get_me env);
                                 s6 = emit (SaveSession uid str (api_config_id data)
                                              (fst me) (snd me) (db_save_session env)) s5
                             in case db_save_session env of
                                  Some e \<Rightarrow> (Inl e, s6)
                                | None \<Rightarrow>
                                    let s7 = emit (Disconnect c (client_disconnect env)) s6
                                    in case client_disconnect env of
                                         Some e \<Rightarrow> (Inl e, s7)
                                       | None \<Rightarrow>
                                           (case dict_del uid (active_qr_sessions s7) of
                                              Inl e \<Rightarrow> (Inl e, s7)
                                            | Inr d \<Rightarrow>
                                                (Inr (Confirmed
                                                       \<lparr>session_string = str,
                                                        telegram_id = fst me,
                                                        phone_number = snd me,
                                                        info_api_name = api_name data\<rparr>),
                                                 emit (Del uid)
                                                   (s7\<lparr>active_qr_sessions := d\<rparr>))))"

definition wait_for_qr_scan :: "wait_env \<Rightarrow> user_id \<Rightarrow> manager \<Rightarrow> wait_result \<times> manager" where
  "wait_for_qr_scan env uid s =
     (case map_of (active_qr_sessions s) uid of
        None \<Rightarrow> (SessionNotFound, s)
      | Some data \<Rightarrow>
          (case wait_try env uid data s of
             (Inr r, s') \<Rightarrow> (r, s')
           | (Inl TimeoutError, s') \<Rightarrow>
               (WaitTimeout, cleanup_session (cleanup_disconnect env) uid s')
           | (Inl e, s') \<Rightarrow>
               (WaitError e, cleanup_session (cleanup_disconnect env) uid s')))"

subsection \<open>Runs of the manager\<close>

text \<open>
  The states that the manager reaches from \<open>__init__\<close> by calls of its three coroutines,
  with any arguments and any behaviour of the environment.
\<close>

inductive reachable :: "manager \<Rightarrow> bool" where
  init: "reachable manager_init"
| create: "reachable s \<Longrightarrow> reachable (snd (create_qr_session env uid cfg_id msg s))"
| wait: "reachable s \<Longrightarrow> reachable (snd (wait_for_qr_scan wenv uid s))"
| cleanup: "reachable s \<Longrightarrow> reachable (cleanup_session d uid s)"

subsection \<open>Reading the trace\<close>

fun is_disconnect_of :: "client \<Rightarrow> event \<Rightarrow> bool" where
  "is_disconnect_of c (Disconnect c' r) = (c' = c)"
| "is_disconnect_of c e = False"

fun is_store_of :: "user_id \<Rightarrow> event \<Rightarrow> bool" where
  "is_store_of u (Store u' c) = (u' = u)"
| "is_store_of u e = False"

text \<open>How many times \<open>disconnect\<close> was called on the client \<open>c\<close>.\<close>

definition disconnect_calls :: "client \<Rightarrow> event list \<Rightarrow> nat" where
  "disconnect_calls c evs = length (filter (is_disconnect_of c) evs)"

text \<open>
  \<open>never_before p q evs\<close>: no event satisfying \<open>q\<close> occurs in \<open>evs\<close> until one satisfying
  \<open>p\<close> has occurred.
\<close>

fun never_before :: "(event \<Rightarrow> bool) \<Rightarrow> (event \<Rightarrow> bool) \<Rightarrow> event list \<Rightarrow> bool" where
  "never_before p q [] = True"
| "never_before p q (e # es) = (if p e then True else \<not> q e \<and> never_before p q es)"

text \<open>
  Whether the connection of the client \<open>c\<close> is open after the events: a \<open>connect\<close> that
  returned opens it, any call of \<open>disconnect\<close> counts as closing it.
\<close>

fun conn_step :: "client \<Rightarrow> bool \<Rightarrow> event \<Rightarrow> bool" where
  "conn_step c b (Connect c' r) = (if c' = c \<and> r = None then True else b)"
| "conn_step c b (Disconnect c' r) = (if c' = c then False else b)"
| "conn_step c b e = b"

definition is_open :: "client \<Rightarrow> event list \<Rightarrow> bool" where
  "is_open c evs = foldl (conn_step c) False evs"

text \<open>Whether some session of the registry holds the client \<open>c\<close>.\<close>

definition registered :: "client \<Rightarrow> manager \<Rightarrow> bool" where
  "registered c s = (filter (\<lambda>kv. client (snd kv) = c) (active_qr_sessions s) \<noteq> [])"

text \<open>How many entries the registry holds for the user \<open>u\<close>.\<close>

definition sessions_of :: "user_id \<Rightarrow> manager \<Rightarrow> nat" where
  "sessions_of u s = length (filter (\<lambda>kv. fst kv = u) (active_qr_sessions s))"

text \<open>Whether the identity fetch failed: \<open>get_me\<close> raised, or returned \<open>None\<close>.\<close>

fun fetch_failed :: "exn + (int \<times> string option) option \<Rightarrow> bool" where
  "fetch_failed (Inr (Some me)) = False"
| "fetch_failed (Inr None) = True"
| "fetch_failed (Inl e) = True"

text \<open>A result with the two optional fields of the identity unset.\<close>

fun without_identity :: "wait_result \<Rightarrow> wait_result" where
  "without_identity (Confirmed info) =
     Confirmed (info\<lparr>telegram_id := None, phone_number := None\<rparr>)"
| "without_identity r = r"

subsection \<open>Sample runs\<close>

text \<open>
  An environment in which every call succeeds, for the second of the default API
  configurations, and the variations used below: the configuration is missing, the remote
  side rejects the login request, nobody scans the code, the user is not authorized after
  the scan, \<open>get_me\<close> raises, and \<open>disconnect\<close> raises.
\<close>

definition env_ok :: create_env where
  "env_ok =
     \<lparr>db_get_api_by_id = Inr (Some (2, ''Android'', 6, ''eb06d4ab'')),
      evict_disconnect = None, random_pick = 0, telegram_client = None,
      client_connect = None, client_qr_login = Inr ''tg://login?token=AQ'',
      datetime_now = 0, db_log_action = None\<rparr>"

definition env_missing :: create_env where
  "env_missing = env_ok\<lparr>db_get_api_by_id := Inr None\<rparr>"

definition env_rejected :: create_env where
  "env_rejected = env_ok\<lparr>client_qr_login := Inl (Exception ''ApiIdInvalidError'')\<rparr>"

definition wenv_ok :: wait_env where
  "wenv_ok =
     \<lparr>qr_wait = Returns 1, is_user_authorized = Inr True, session_save = Inr ''1BVtsOK'',
      get_me = Inr (Some (555, Some ''+1555'')), db_save_session = None,
      client_disconnect = None, cleanup_disconnect = None\<rparr>"

definition wenv_never :: wait_env where
  "wenv_never = wenv_ok\<lparr>qr_wait := Pending\<rparr>"

definition wenv_unauthorized :: wait_env where
  "wenv_unauthorized = wenv_ok\<lparr>is_user_authorized := Inr False\<rparr>"

definition wenv_no_identity :: wait_env where
  "wenv_no_identity = wenv_ok\<lparr>get_me := Inl (Exception ''RPCError'')\<rparr>"

definition wenv_disconnect_raises :: wait_env where
  "wenv_disconnect_raises = wenv_ok\<lparr>client_disconnect := Some (Exception ''OSError'')\<rparr>"

text \<open>The session that a successful \<open>create_qr_session\<close> stores in the fresh manager.\<close>

definition first_session :: qr_session where
  "first_session =
     \<lparr>client = 0, qr_login = ''tg://login?token=AQ'', api_config_id = 2,
      api_name = ''Android'', created_at = 0, message = 0\<rparr>"

text \<open>The manager after that call, for the user 1003.\<close>

definition started :: manager where
  "started = snd (create_qr_session env_ok 1003 2 0 manager_init)"

section \<open>Properties\<close>

subsection \<open>Auxiliary facts\<close>

lemma emit_simps [simp]:
  "active_qr_sessions (emit e s) = active_qr_sessions s"
  "trace (emit e s) = trace s @ [e]"
  "next_client (emit e s) = next_client s"
  by (simp_all add: emit_def)

lemma new_events_append [simp]: "trace s' = trace s @ evs \<Longrightarrow> new_events s s' = evs"
  by (simp add: new_events_def)

lemma filter_key_delete [simp]: "filter (\<lambda>kv. fst kv = u) (AList.delete u al) = []"
  by (induction al) auto

lemma map_of_delete_same [simp]: "map_of (AList.delete u al) u = None"
  by (simp add: delete_conv')

lemma me_fields_failed [simp]: "fetch_failed r \<Longrightarrow> me_fields r = (None, None)"
  by (cases r rule: fetch_failed.cases) simp_all

text \<open>The manager after the first successful call, written out.\<close>

lemma started_eq:
  "started =
     \<lparr>active_qr_sessions = [(1003, first_session)],
      trace = [GetApiById 2, NewClient 0 6 ''eb06d4ab'' (devices ! 0), Connect 0 None,
               QrLogin 0 None, Store 1003 0,
               LogAction 1003 ''qr_created'' ''api: Android'' None],
      next_client = 1\<rparr>"
  by (simp add: started_def create_qr_session_def create_qr_try_def env_ok_def manager_init_def
      emit_def first_session_def random_choice_def devices_def)

lemma started_session: "map_of (active_qr_sessions started) 1003 = Some first_session"
  by (simp add: started_eq)

subsection \<open>The keys of the registry stay distinct\<close>

lemma create_distinct:
  "distinct (map fst (active_qr_sessions s)) \<Longrightarrow>
   distinct (map fst (active_qr_sessions (snd (create_qr_session env uid cfg_id msg s))))"
  by (auto simp: create_qr_session_def create_qr_try_def Let_def distinct_update
      split: sum.splits option.splits prod.splits)

lemma cleanup_distinct:
  "distinct (map fst (active_qr_sessions s)) \<Longrightarrow>
   distinct (map fst (active_qr_sessions (cleanup_session d uid s)))"
  by (auto simp: cleanup_session_def Let_def distinct_delete split: option.splits)

lemma wait_try_distinct:
  "distinct (map fst (active_qr_sessions s)) \<Longrightarrow>
   distinct (map fst (active_qr_sessions (snd (wait_try env uid data s))))"
  by (auto simp: wait_try_def dict_del_def Let_def distinct_delete
      split: sum.splits option.splits prod.splits)

text \<open>
  The state after \<open>wait_for_qr_scan\<close> is the state before, the state after the body of
  the \<open>try\<close> statement, or that state cleaned up.
\<close>

lemma wait_for_qr_scan_state:
  "snd (wait_for_qr_scan env uid s) = s \<or>
   (\<exists>data. snd (wait_for_qr_scan env uid s) = snd (wait_try env uid data s)) \<or>
   (\<exists>data. snd (wait_for_qr_scan env uid s) =
      cleanup_session (cleanup_disconnect env) uid (snd (wait_try env uid data s)))"
proof (cases "map_of (active_qr_sessions s) uid")
  case None
  then show ?thesis by (simp add: wait_for_qr_scan_def)
next
  case (Some data)
  obtain r s' where w: "wait_try env uid data s = (r, s')"
    by (cases "wait_try env uid data s")
  show ?thesis
  proof (cases r)
    case (Inl e)
    with Some w have "snd (wait_for_qr_scan env uid s) =
        cleanup_session (cleanup_disconnect env) uid (snd (wait_try env uid data s))"
      by (cases e) (simp_all add: wait_for_qr_scan_def)
    then show ?thesis by blast
  next
    case (Inr x)
    with Some w have "snd (wait_for_qr_scan env uid s) = snd (wait_try env uid data s)"
      by (simp add: wait_for_qr_scan_def)
    then show ?thesis by blast
  qed
qed

lemma wait_distinct:
  "distinct (map fst (active_qr_sessions s)) \<Longrightarrow>
   distinct (map fst (active_qr_sessions (snd (wait_for_qr_scan env uid s))))"
  using wait_for_qr_scan_state [of env uid s]
  by (auto simp: wait_try_distinct cleanup_distinct)

lemma reachable_distinct: "reachable s \<Longrightarrow> distinct (map fst (active_qr_sessions s))"
  by (induction rule: reachable.induct)
     (simp_all add: manager_init_def create_distinct wait_distinct cleanup_distinct)

lemma distinct_keys_filter:
  "distinct (map fst al) \<Longrightarrow> length (filter (\<lambda>kv. fst kv = u) al) \<le> 1"
  by (induction al) (auto simp: filter_empty_conv image_iff)

text \<open>
  C2. In every state that the manager reaches by calls of \<open>create_qr_session\<close>,
  \<open>wait_for_qr_scan\<close> and \<open>cleanup_session\<close>, the registry holds at most one session for
  every user.
\<close>

theorem reachable_one_session_per_user: "reachable s \<Longrightarrow> sessions_of u s \<le> 1"
  using distinct_keys_filter [OF reachable_distinct, of s u] by (simp add: sessions_of_def)

theorem reachable_one_session_per_user_witness:
  "reachable (snd (create_qr_session env_ok 1003 2 0 started)) \<and>
   sessions_of 1003 (snd (create_qr_session env_ok 1003 2 0 started)) \<le> 1"
proof -
  have r: "reachable (snd (create_qr_session env_ok 1003 2 0 started))"
    unfolding started_def by (intro reachable.create reachable.init)
  show ?thesis using r reachable_one_session_per_user [OF r, of 1003] by simp
qed

subsection \<open>A missing API configuration\<close>

lemma create_not_found_run:
  "db_get_api_by_id env = Inr None \<Longrightarrow>
   create_qr_session env uid cfg_id msg s = (ApiConfigNotFound, emit (GetApiById cfg_id) s)"
  by (simp add: create_qr_session_def create_qr_try_def)

lemma create_not_found_only:
  "fst (create_qr_session env uid cfg_id msg s) = ApiConfigNotFound \<Longrightarrow>
   db_get_api_by_id env = Inr None"
  by (auto simp: create_qr_session_def create_qr_try_def Let_def
      split: sum.splits option.splits prod.splits)

text \<open>
  C6. When \<open>db.get_api_by_id\<close> finds no configuration, \<open>create_qr_session\<close> returns
  the not-found failure, having made no other call, and the registry is what it was: the
  call registers no session.
\<close>

theorem create_profile_not_found:
  assumes "db_get_api_by_id env = Inr None"
  shows "fst (create_qr_session env uid cfg_id msg s) = ApiConfigNotFound \<and>
         active_qr_sessions (snd (create_qr_session env uid cfg_id msg s)) =
           active_qr_sessions s \<and>
         new_events s (snd (create_qr_session env uid cfg_id msg s)) = [GetApiById cfg_id]"
  using assms by (simp add: create_not_found_run)

theorem create_profile_not_found_witness:
  "db_get_api_by_id env_missing = Inr None \<and>
   fst (create_qr_session env_missing 9999 99 0 manager_init) = ApiConfigNotFound \<and>
   active_qr_sessions (snd (create_qr_session env_missing 9999 99 0 manager_init)) = []"
proof -
  have h: "db_get_api_by_id env_missing = Inr None"
    by (simp add: env_missing_def)
  show ?thesis
    using h create_profile_not_found [OF h, of 9999 99 0 manager_init]
    by (simp add: manager_init_def)
qed

text \<open>
  C10. When the user has a session and \<open>create_qr_session\<close> fails with the not-found
  failure, that session is still the user's entry, the registry is unchanged,
  \<open>disconnect\<close> was not called on its client, and the connection of that client is as
  open as it was.
\<close>

theorem create_not_found_keeps_session:
  assumes "map_of (active_qr_sessions s) uid = Some old"
      and "fst (create_qr_session env uid cfg_id msg s) = ApiConfigNotFound"
  shows "map_of (active_qr_sessions (snd (create_qr_session env uid cfg_id msg s))) uid =
           Some old \<and>
         active_qr_sessions (snd (create_qr_session env uid cfg_id msg s)) =
           active_qr_sessions s \<and>
         disconnect_calls (client old)
           (new_events s (snd (create_qr_session env uid cfg_id msg s))) = 0 \<and>
         is_open (client old) (trace (snd (create_qr_session env uid cfg_id msg s))) =
           is_open (client old) (trace s)"
  using assms(1) create_not_found_run [OF create_not_found_only [OF assms(2)], of uid cfg_id msg s]
  by (simp add: disconnect_calls_def is_open_def)

theorem create_not_found_keeps_session_witness:
  "map_of (active_qr_sessions started) 1003 = Some first_session \<and>
   fst (create_qr_session env_missing 1003 99 0 started) = ApiConfigNotFound \<and>
   map_of (active_qr_sessions (snd (create_qr_session env_missing 1003 99 0 started))) 1003 =
     Some first_session \<and>
   disconnect_calls (client first_session)
     (new_events started (snd (create_qr_session env_missing 1003 99 0 started))) = 0"
proof -
  have h1: "map_of (active_qr_sessions started) 1003 = Some first_session"
    by (rule started_session)
  have h2: "fst (create_qr_session env_missing 1003 99 0 started) = ApiConfigNotFound"
    by (simp add: create_qr_session_def create_qr_try_def env_missing_def)
  show ?thesis
    using h1 h2 create_not_found_keeps_session [OF h1 h2] by simp
qed

subsection \<open>Eviction of the previous session\<close>

lemma create_found_events:
  assumes "map_of (active_qr_sessions s) uid = Some old"
      and "db_get_api_by_id env = Inr (Some row)"
  shows "\<exists>rest. trace (snd (create_qr_session env uid cfg_id msg s)) =
            trace s @ GetApiById cfg_id # Disconnect (client old) (evict_disconnect env) # rest \<and>
          filter (is_disconnect_of (client old)) rest = []"
  using assms
  by (cases row)
     (auto simp: create_qr_session_def create_qr_try_def Let_def
      split: sum.splits option.splits prod.splits)

lemma create_ignores_evict_failure:
  "fst (create_qr_session env uid cfg_id msg s) =
     fst (create_qr_session (env\<lparr>evict_disconnect := None\<rparr>) uid cfg_id msg s) \<and>
   active_qr_sessions (snd (create_qr_session env uid cfg_id msg s)) =
     active_qr_sessions (snd (create_qr_session (env\<lparr>evict_disconnect := None\<rparr>) uid cfg_id msg s))"
  by (auto simp: create_qr_session_def create_qr_try_def Let_def
      split: sum.splits option.splits prod.splits)

text \<open>
  A call for a user who has a session, with a configuration that does not exist: the call
  returns the not-found failure and \<open>disconnect\<close> is not called on the client of that
  session, so the number of calls is not one.
\<close>

theorem create_missing_profile_no_disconnect:
  "map_of (active_qr_sessions started) 1003 = Some first_session \<and>
   fst (create_qr_session env_missing 1003 99 0 started) = ApiConfigNotFound \<and>
   disconnect_calls (client first_session)
     (new_events started (snd (create_qr_session env_missing 1003 99 0 started))) \<noteq> 1"
  by (simp add: started_eq create_qr_session_def create_qr_try_def env_missing_def env_ok_def
      emit_def new_events_def disconnect_calls_def first_session_def)

text \<open>
  C3, amended. When the user has a session and \<open>db.get_api_by_id\<close> finds the
  configuration, \<open>create_qr_session\<close> calls \<open>disconnect\<close> on the client of that session
  exactly once, no assignment to the user's entry of the registry comes before that call,
  and what \<open>disconnect\<close> raises changes neither the returned value nor the registry.
\<close>

theorem create_evicts_once_before_store:
  assumes "map_of (active_qr_sessions s) uid = Some old"
      and "db_get_api_by_id env = Inr (Some row)"
  shows "disconnect_calls (client old)
           (new_events s (snd (create_qr_session env uid cfg_id msg s))) = 1 \<and>
         never_before (is_disconnect_of (client old)) (is_store_of uid)
           (new_events s (snd (create_qr_session env uid cfg_id msg s))) \<and>
         fst (create_qr_session env uid cfg_id msg s) =
           fst (create_qr_session (env\<lparr>evict_disconnect := None\<rparr>) uid cfg_id msg s) \<and>
         active_qr_sessions (snd (create_qr_session env uid cfg_id msg s)) =
           active_qr_sessions
             (snd (create_qr_session (env\<lparr>evict_disconnect := None\<rparr>) uid cfg_id msg s))"
proof -
  obtain rest where
    tr: "trace (snd (create_qr_session env uid cfg_id msg s)) =
           trace s @ GetApiById cfg_id # Disconnect (client old) (evict_disconnect env) # rest"
    and rest: "filter (is_disconnect_of (client old)) rest = []"
    using create_found_events [OF assms] by blast
  have ev: "new_events s (snd (create_qr_session env uid cfg_id msg s)) =
              GetApiById cfg_id # Disconnect (client old) (evict_disconnect env) # rest"
    using tr by simp
  show ?thesis
    using create_ignores_evict_failure [of env uid cfg_id msg s]
    by (simp add: ev rest disconnect_calls_def)
qed

theorem create_evicts_once_before_store_witness:
  "map_of (active_qr_sessions started) 1003 = Some first_session \<and>
   db_get_api_by_id env_ok = Inr (Some (2, ''Android'', 6, ''eb06d4ab'')) \<and>
   fst (create_qr_session env_ok 1003 2 0 started) = Created ''tg://login?token=AQ'' \<and>
   disconnect_calls (client first_session)
     (new_events started (snd (create_qr_session env_ok 1003 2 0 started))) = 1 \<and>
   never_before (is_disconnect_of (client first_session)) (is_store_of 1003)
     (new_events started (snd (create_qr_session env_ok 1003 2 0 started)))"
proof -
  have h1: "map_of (active_qr_sessions started) 1003 = Some first_session"
    by (rule started_session)
  have h2: "db_get_api_by_id env_ok = Inr (Some (2, ''Android'', 6, ''eb06d4ab''))"
    by (simp add: env_ok_def)
  have r: "fst (create_qr_session env_ok 1003 2 0 started) = Created ''tg://login?token=AQ''"
    by (simp add: started_eq create_qr_session_def create_qr_try_def env_ok_def)
  show ?thesis
    using h1 h2 r create_evicts_once_before_store [OF h1 h2, of 2 0] by simp
qed

subsection \<open>A handshake that cannot be opened\<close>

text \<open>
  C8. The configuration exists and \<open>connect\<close> returns, but \<open>qr_login\<close> raises. The call
  reports the error and stores nothing, and the client that it connected is neither
  disconnected nor held by any session: its connection stays open.
\<close>

theorem rejected_login_leaks_client:
  "fst (create_qr_session env_rejected 1001 2 0 manager_init) =
     CreateError (Exception ''ApiIdInvalidError'') \<and>
   active_qr_sessions (snd (create_qr_session env_rejected 1001 2 0 manager_init)) = [] \<and>
   new_events manager_init (snd (create_qr_session env_rejected 1001 2 0 manager_init)) =
     [GetApiById 2, NewClient 0 6 ''eb06d4ab'' (devices ! 0), Connect 0 None,
      QrLogin 0 (Some (Exception ''ApiIdInvalidError''))] \<and>
   is_open 0 (trace (snd (create_qr_session env_rejected 1001 2 0 manager_init))) \<and>
   \<not> registered 0 (snd (create_qr_session env_rejected 1001 2 0 manager_init))"
  by (simp add: create_qr_session_def create_qr_try_def env_rejected_def env_ok_def
      manager_init_def emit_def new_events_def is_open_def registered_def random_choice_def
      devices_def)

subsection \<open>Waiting for the scan\<close>

lemma wait_for_pending_run:
  assumes "map_of (active_qr_sessions s) uid = Some data" and "qr_wait env = Pending"
  shows "wait_for_qr_scan env uid s =
           (WaitTimeout,
            cleanup_session (cleanup_disconnect env) uid (emit (WaitFor (client data) 120 120) s))"
  using assms by (simp add: wait_for_qr_scan_def wait_try_def)

text \<open>
  C4. When the user has a session and \<open>qr_login.wait()\<close> never finishes, the wait ends
  after 120 seconds, \<open>wait_for_qr_scan\<close> returns the timeout failure, the calls it made
  are the wait, one \<open>disconnect\<close> on the client of the session and the deletion of the
  entry, and afterwards the registry has no entry for the user and the connection is not
  open.
\<close>

theorem wait_timeout_cleans_up:
  assumes "map_of (active_qr_sessions s) uid = Some data"
      and "qr_wait env = Pending"
  shows "fst (wait_for_qr_scan env uid s) = WaitTimeout \<and>
         new_events s (snd (wait_for_qr_scan env uid s)) =
           [WaitFor (client data) 120 120,
            Disconnect (client data) (cleanup_disconnect env), Del uid] \<and>
         map_of (active_qr_sessions (snd (wait_for_qr_scan env uid s))) uid = None \<and>
         sessions_of uid (snd (wait_for_qr_scan env uid s)) = 0 \<and>
         \<not> is_open (client data) (trace (snd (wait_for_qr_scan env uid s)))"
  using assms(1)
  by (simp add: wait_for_pending_run [OF assms] cleanup_session_def sessions_of_def is_open_def)

theorem wait_timeout_cleans_up_witness:
  "map_of (active_qr_sessions started) 1003 = Some first_session \<and>
   qr_wait wenv_never = Pending \<and>
   fst (wait_for_qr_scan wenv_never 1003 started) = WaitTimeout \<and>
   new_events started (snd (wait_for_qr_scan wenv_never 1003 started)) =
     [WaitFor 0 120 120, Disconnect 0 None, Del 1003] \<and>
   map_of (active_qr_sessions (snd (wait_for_qr_scan wenv_never 1003 started))) 1003 = None"
proof -
  have h1: "map_of (active_qr_sessions started) 1003 = Some first_session"
    by (rule started_session)
  have h2: "qr_wait wenv_never = Pending"
    by (simp add: wenv_never_def)
  have c: "client first_session = 0" "cleanup_disconnect wenv_never = None"
    by (simp_all add: first_session_def wenv_never_def wenv_ok_def)
  show ?thesis
    using h1 h2 wait_timeout_cleans_up [OF h1 h2] by (simp add: c)
qed





subsection \<open>The identity fetch\<close>

lemma wait_result_of_try:
  "fst (wait_for_qr_scan env uid s) =
     (case map_of (active_qr_sessions s) uid of
        None \<Rightarrow> SessionNotFound
      | Some data \<Rightarrow>
          (case fst (wait_try env uid data s) of
             Inr r \<Rightarrow> r
           | Inl TimeoutError \<Rightarrow> WaitTimeout
           | Inl e \<Rightarrow> WaitError e))"
  by (auto simp: wait_for_qr_scan_def split: sum.splits option.splits exn.splits prod.splits)

lemma wait_try_identity:
  assumes "fetch_failed r"
  shows "fst (wait_try (env\<lparr>get_me := r\<rparr>) uid data s) =
           map_sum id without_identity
             (fst (wait_try (env\<lparr>get_me := Inr (Some me)\<rparr>) uid data s))"
  using assms
  by (cases r rule: fetch_failed.cases; cases me)
     (auto simp: wait_try_def Let_def split: sum.splits option.splits)

lemma wait_confirmed_run:
  assumes "map_of (active_qr_sessions s) uid = Some data"
      and "qr_wait env = Returns t" and "t < 120"
      and "is_user_authorized env = Inr True"
      and "session_save env = Inr str"
      and "db_save_session env = None"
      and "client_disconnect env = None"
  shows "fst (wait_for_qr_scan env uid s) =
           Confirmed \<lparr>session_string = str, telegram_id = fst (me_fields (get_me env)),
                      phone_number = snd (me_fields (get_me env)),
                      info_api_name = api_name data\<rparr>"
  using assms by (simp add: wait_for_qr_scan_def wait_try_def dict_del_def Let_def)

text \<open>
  C5. When \<open>get_me\<close> raises or returns \<open>None\<close>, \<open>wait_for_qr_scan\<close> returns what it
  returns when \<open>get_me\<close> yields a user, with the two fields \<open>telegram_id\<close> and
  \<open>phone_number\<close> of a success value set to \<open>None\<close>: the failure turns no success into a
  failure. In particular, when the scan arrives within the 120 seconds, the user is
  authorized and the calls that follow \<open>get_me\<close> do not raise, the result is the success
  value with both fields \<open>None\<close>.
\<close>

theorem identity_failure_still_confirmed:
  assumes "fetch_failed (get_me env)"
  shows "fst (wait_for_qr_scan env uid s) =
           without_identity (fst (wait_for_qr_scan (env\<lparr>get_me := Inr (Some me)\<rparr>) uid s)) \<and>
         (map_of (active_qr_sessions s) uid = Some data \<longrightarrow>
          qr_wait env = Returns t \<longrightarrow> t < 120 \<longrightarrow>
          is_user_authorized env = Inr True \<longrightarrow>
          session_save env = Inr str \<longrightarrow>
          db_save_session env = None \<longrightarrow>
          client_disconnect env = None \<longrightarrow>
          fst (wait_for_qr_scan env uid s) =
            Confirmed \<lparr>session_string = str, telegram_id = None, phone_number = None,
                       info_api_name = api_name data\<rparr>)"
proof
  have "fst (wait_try env uid d s) =
          map_sum id without_identity (fst (wait_try (env\<lparr>get_me := Inr (Some me)\<rparr>) uid d s))"
    for d
    using wait_try_identity [OF assms, of env uid d s me] by simp
  then show "fst (wait_for_qr_scan env uid s) =
           without_identity (fst (wait_for_qr_scan (env\<lparr>get_me := Inr (Some me)\<rparr>) uid s))"
    by (auto simp: wait_result_of_try split: option.splits sum.splits exn.splits)
next
  show "map_of (active_qr_sessions s) uid = Some data \<longrightarrow>
          qr_wait env = Returns t \<longrightarrow> t < 120 \<longrightarrow>
          is_user_authorized env = Inr True \<longrightarrow>
          session_save env = Inr str \<longrightarrow>
          db_save_session env = None \<longrightarrow>
          client_disconnect env = None \<longrightarrow>
          fst (wait_for_qr_scan env uid s) =
            Confirmed \<lparr>session_string = str, telegram_id = None, phone_number = None,
                       info_api_name = api_name data\<rparr>"
    using assms by (auto simp: wait_confirmed_run)
qed

theorem identity_failure_still_confirmed_witness:
  "fetch_failed (get_me wenv_no_identity) \<and>
   map_of (active_qr_sessions started) 1003 = Some first_session \<and>
   fst (wait_for_qr_scan wenv_no_identity 1003 started) =
     Confirmed \<lparr>session_string = ''1BVtsOK'', telegram_id = None, phone_number = None,
                info_api_name = ''Android''\<rparr>"
proof -
  have h: "fetch_failed (get_me wenv_no_identity)"
    by (simp add: wenv_no_identity_def)
  have e: "map_of (active_qr_sessions started) 1003 = Some first_session"
    "qr_wait wenv_no_identity = Returns 1"
    "is_user_authorized wenv_no_identity = Inr True"
    "session_save wenv_no_identity = Inr ''1BVtsOK''"
    "db_save_session wenv_no_identity = None"
    "client_disconnect wenv_no_identity = None"
    "api_name first_session = ''Android''"
    by (simp_all add: started_eq wenv_no_identity_def wenv_ok_def first_session_def)
  show ?thesis
    using h identity_failure_still_confirmed
            [OF h, of 1003 started "(555, Some ''+1555'')" first_session 1 "''1BVtsOK''",
             THEN conjunct2]
    by (simp add: e)
qed

subsection \<open>Paths of the waiter that skip or repeat the teardown\<close>

text \<open>
  C1. The scan arrives but \<open>is_user_authorized\<close> returns \<open>False\<close>. The waiter returns
  the failure that the authorization is not completed, and that \<open>return\<close> statement is
  reached without \<open>cleanup_session\<close>: the session is still the user's entry of the
  registry, \<open>disconnect\<close> was never called on its client, and the connection is open.
\<close>

theorem unauthorized_scan_leaves_session:
  "fst (wait_for_qr_scan wenv_unauthorized 1003 started) = AuthNotCompleted \<and>
   map_of (active_qr_sessions (snd (wait_for_qr_scan wenv_unauthorized 1003 started))) 1003 =
     Some first_session \<and>
   disconnect_calls (client first_session)
     (trace (snd (wait_for_qr_scan wenv_unauthorized 1003 started))) = 0 \<and>
   is_open (client first_session)
     (trace (snd (wait_for_qr_scan wenv_unauthorized 1003 started)))"
  by (simp add: started_eq wait_for_qr_scan_def wait_try_def wenv_unauthorized_def wenv_ok_def
      first_session_def emit_def disconnect_calls_def is_open_def random_choice_def devices_def)

text \<open>
  C7. Every call succeeds, and the waiter returns the success value; the same run in which
  only \<open>disconnect\<close> raises, after \<open>db.save_session\<close> has returned, ends in the
  handler of the outer \<open>try\<close> statement: the waiter returns the error built from the
  exception of \<open>disconnect\<close>.
\<close>

theorem disconnect_error_reported_after_save:
  "fst (wait_for_qr_scan wenv_ok 1003 started) =
     Confirmed \<lparr>session_string = ''1BVtsOK'', telegram_id = Some 555,
                phone_number = Some ''+1555'', info_api_name = ''Android''\<rparr> \<and>
   fst (wait_for_qr_scan wenv_disconnect_raises 1003 started) =
     WaitError (Exception ''OSError'') \<and>
   new_events started (snd (wait_for_qr_scan wenv_disconnect_raises 1003 started)) =
     [WaitFor 0 120 1, Sleep 3, IsUserAuthorized 0, SessionSave 0, GetMe 0,
      SaveSession 1003 ''1BVtsOK'' 2 (Some 555) (Some ''+1555'') None,
      Disconnect 0 (Some (Exception ''OSError'')), Disconnect 0 None, Del 1003]"
  by (simp add: started_eq wait_for_qr_scan_def wait_try_def cleanup_session_def dict_del_def
      wenv_disconnect_raises_def wenv_ok_def first_session_def emit_def new_events_def)

end
